theory Spec2Isabelle
  imports Complex_Main
begin

section \<open>MedDrone operations center: the client in app.js\<close>

text \<open>
  The client keeps its state in a few globals (\<open>currentUser\<close>, \<open>charts\<close>,
  \<open>updateIntervals\<close>, \<open>isInitialized\<close>, \<open>appData\<close>) and in the page it drives.
  Each function of app.js becomes a function on an explicit state record. What the
  environment decides is a parameter: the reply of the backend to a request, and the
  value \<open>Math.random()\<close> returns. JavaScript numbers are modelled as reals (the values
  the backend sends are JSON numbers, hence finite), with exact sums and products where
  the code rounds each result to a double; strings as lists of 8-bit characters.
\<close>

subsection \<open>Data\<close>

text \<open>An entry of \<open>appData.demo_users\<close>, and the object held in \<open>currentUser\<close>.\<close>

record demo_user =
  du_password :: string
  du_role :: string
  du_full_name :: string

record user =
  username :: string
  password :: "string option"
  role :: string
  full_name :: string

record drone =
  drone_id :: string
  status :: string
  mission :: string
  location :: string
  battery :: real

record supply_item =
  item_name :: string
  current_stock :: real
  min_stock_level :: real
  unit_of_measure :: string
  quality_status :: string

record kpi =
  total_drones :: real
  active_missions :: real
  success_rate :: real
  avg_delivery_time :: real

text \<open>The element \<open>createDroneCard\<close> builds, by the values its template interpolates.\<close>

record drone_card =
  card_id :: string
  card_status :: string
  card_status_class :: string
  card_mission :: string
  card_location :: string
  card_battery_class :: string
  card_battery_width :: real
  card_battery_label :: int

subsection \<open>Library functions of the language\<close>

text \<open>\<open>Math.round\<close>: the nearest integer, a half rounding up.\<close>

definition Math_round :: "real \<Rightarrow> int" where
  "Math_round x = \<lfloor>x + 1 / 2\<rfloor>"

text \<open>
  \<open>String.prototype.toLowerCase\<close> on 8-bit characters: the letters A to Z and the
  capital letters of Latin-1 (0xC0 to 0xDE, without the multiplication sign 0xD7)
  move up by 32.
\<close>

definition lower_char :: "char \<Rightarrow> char" where
  "lower_char c =
     (if ((65::nat) \<le> of_char c \<and> of_char c \<le> (90::nat))
         \<or> ((192::nat) \<le> of_char c \<and> of_char c \<le> (222::nat) \<and> of_char c \<noteq> (215::nat))
      then char_of (of_char c + (32::nat)) else c)"

definition toLowerCase :: "string \<Rightarrow> string" where
  "toLowerCase s = map lower_char s"

text \<open>\<open>s.replace(' ', '-')\<close>: a string pattern replaces its first occurrence only.\<close>

fun replace_first_space :: "string \<Rightarrow> string" where
  "replace_first_space [] = []"
| "replace_first_space (c # cs) =
     (if c = CHR '' '' then CHR ''-'' # cs else c # replace_first_space cs)"

subsection \<open>Fleet cards\<close>

definition batteryClass :: "real \<Rightarrow> string" where
  "batteryClass b = (if b > 60 then ''high'' else if b > 30 then ''medium'' else ''low'')"

definition createDroneCard :: "drone \<Rightarrow> drone_card" where
  "createDroneCard d =
     \<lparr>card_id = drone_id d,
      card_status = status d,
      card_status_class = replace_first_space (toLowerCase (status d)),
      card_mission = mission d,
      card_location = location d,
      card_battery_class = batteryClass (battery d),
      card_battery_width = battery d,
      card_battery_label = Math_round (battery d)\<rparr>"

subsection \<open>The backend, timers and the page\<close>

text \<open>
  \<open>apiRequest\<close> throws on a transport failure and on a status that is not 2xx; both
  are the one error value. A request is recorded by its method and path (for
  \<open>POST /login\<close> with the username and password of its body).
\<close>

datatype api_error = NetworkError

datatype request = Get string | Post string string string

text \<open>The body of the reply to \<open>POST /login\<close>: \<open>{success, user}\<close>.\<close>

datatype login_reply = LoginSuccess user | LoginFailure

text \<open>What a pending \<open>setTimeout\<close> will run, and what a \<open>setInterval\<close> runs.\<close>

datatype task = HideLoginError | InitializeMainApp | InitializePage string | FocusUsername

datatype tick = DashboardTick | TrackingTick | TimeLabelTick

text \<open>
  The state. First the globals of app.js, with \<open>charts\<close> and \<open>updateIntervals\<close> as
  objects holding handles by key, in insertion order; then the browser (requests sent,
  interval timers running, chart widgets alive, timeouts pending with their delay);
  then the elements of the page the functions read and write, \<open>None\<close> where
  \<open>getElementById\<close> finds nothing. \<open>login_error\<close> is the text of the error box and
  whether it carries the class \<open>hidden\<close>; \<open>login_screen_hidden\<close> and
  \<open>main_app_hidden\<close> are that class on the two screens. The two KPI labels hold the
  number \<open>parseFloat\<close> reads from them.
\<close>

record app_state =
  currentUser :: "user option"
  charts :: "(string \<times> nat) list"
  updateIntervals :: "(string \<times> nat) list"
  isInitialized :: bool
  drone_fleet :: "drone list"
  medical_supplies :: "supply_item list"
  kpi_data :: kpi
  requests :: "request list"
  next_handle :: nat
  live_intervals :: "(nat \<times> tick) list"
  live_charts :: "nat list"
  timeouts :: "(nat \<times> task) list"
  username_field :: "string option"
  password_field :: "string option"
  login_error :: "(string \<times> bool) option"
  login_screen_hidden :: "bool option"
  main_app_hidden :: "bool option"
  user_name_el :: "string option"
  user_role_el :: "string option"
  page_ids :: "string list"
  active_pages :: "string list"
  nav_ids :: "string list"
  active_navs :: "string list"
  fleet_grid :: "drone_card list option"
  success_rate_el :: "real option"
  avg_delivery_el :: "real option"

text \<open>
  The state when the script has loaded, on a page that has every element. The script
  starts one timer itself, the 30 s rewrite of the "min ago" labels, and keeps no
  handle of it.
\<close>

definition initial_kpi :: kpi where
  "initial_kpi =
     \<lparr>total_drones = 15, active_missions = 8, success_rate = 94.5, avg_delivery_time = 12.3\<rparr>"

definition initial_state :: app_state where
  "initial_state =
     \<lparr>currentUser = None, charts = [], updateIntervals = [], isInitialized = False,
      drone_fleet = [], medical_supplies = [], kpi_data = initial_kpi,
      requests = [], next_handle = 2, live_intervals = [(1, TimeLabelTick)], live_charts = [],
      timeouts = [],
      username_field = Some [], password_field = Some [], login_error = Some ([], True),
      login_screen_hidden = Some False, main_app_hidden = Some True,
      user_name_el = Some [], user_role_el = Some [],
      page_ids = [''dashboard'', ''fleet'', ''analytics'', ''inventory'', ''maintenance'',
        ''tracking''],
      active_pages = [''dashboard''],
      nav_ids = [''dashboard'', ''fleet'', ''analytics'', ''inventory'', ''maintenance'',
        ''tracking''],
      active_navs = [''dashboard''],
      fleet_grid = Some [], success_rate_el = Some 0, avg_delivery_el = Some 0\<rparr>"

text \<open>
  \<open>String.prototype.trim\<close> strips white space and line terminators from both ends:
  of the 8-bit characters these are TAB, LF, VT, FF, CR, SP and NBSP.
\<close>

definition isWhiteSpace :: "char \<Rightarrow> bool" where
  "isWhiteSpace c =
     (c = CHR 0x09 \<or> c = CHR 0x0A \<or> c = CHR 0x0B \<or> c = CHR 0x0C \<or> c = CHR 0x0D
      \<or> c = CHR 0x20 \<or> c = CHR 0xA0)"

definition trim :: "string \<Rightarrow> string" where
  "trim s = rev (dropWhile isWhiteSpace (rev (dropWhile isWhiteSpace s)))"

text \<open>\<open>obj[key] = v\<close>: an existing key keeps its place, a new one is added last.\<close>

fun assign :: "string \<Rightarrow> 'a \<Rightarrow> (string \<times> 'a) list \<Rightarrow> (string \<times> 'a) list" where
  "assign k v [] = [(k, v)]"
| "assign k v (p # ps) = (if fst p = k then (k, v) # ps else p # assign k v ps)"

subsection \<open>API functions\<close>

definition apiRequest ::
  "request \<Rightarrow> (api_error + 'a) \<Rightarrow> app_state \<Rightarrow> (api_error + 'a) \<times> app_state" where
  "apiRequest req reply s = (reply, s\<lparr>requests := requests s @ [req]\<rparr>)"

definition fetchKPIs :: "(api_error + kpi) \<Rightarrow> app_state \<Rightarrow> kpi \<times> app_state" where
  "fetchKPIs reply s =
     (case apiRequest (Get ''/dashboard/kpis'') reply s of
        (Inr data, s1) \<Rightarrow> (data, s1\<lparr>kpi_data := data\<rparr>)
      | (Inl error, s1) \<Rightarrow> (kpi_data s1, s1))"

definition fetchFleetStatus ::
  "(api_error + drone list) \<Rightarrow> app_state \<Rightarrow> drone list \<times> app_state" where
  "fetchFleetStatus reply s =
     (case apiRequest (Get ''/fleet/status'') reply s of
        (Inr data, s1) \<Rightarrow> (data, s1\<lparr>drone_fleet := data\<rparr>)
      | (Inl error, s1) \<Rightarrow> (drone_fleet s1, s1))"

definition fetchMedicalSupplies ::
  "(api_error + supply_item list) \<Rightarrow> app_state \<Rightarrow> supply_item list \<times> app_state" where
  "fetchMedicalSupplies reply s =
     (case apiRequest (Get ''/medical/inventory'') reply s of
        (Inr data, s1) \<Rightarrow> (data, s1\<lparr>medical_supplies := data\<rparr>)
      | (Inl error, s1) \<Rightarrow> (medical_supplies s1, s1))"

subsection \<open>Authentication functions\<close>

text \<open>
  \<open>appData.demo_users\<close>. A name the object only inherits (\<open>constructor\<close>,
  \<open>toString\<close>) yields an object with no \<open>password\<close>, which differs from every entered
  password, so such a name fails as a missing one does.
\<close>

definition demo_users :: "(string \<times> demo_user) list" where
  "demo_users =
     [(''admin'', \<lparr>du_password = ''admin123'', du_role = ''Administrator'',
         du_full_name = ''System Administrator''\<rparr>),
      (''fleet_mgr'', \<lparr>du_password = ''fleet123'', du_role = ''Fleet Manager'',
         du_full_name = ''Fleet Operations Manager''\<rparr>),
      (''medical'', \<lparr>du_password = ''medical123'', du_role = ''Medical Coordinator'',
         du_full_name = ''Medical Supply Coordinator''\<rparr>),
      (''demo'', \<lparr>du_password = ''demo123'', du_role = ''Observer'',
         du_full_name = ''Demo User''\<rparr>)]"

definition showLoginError :: "string \<Rightarrow> app_state \<Rightarrow> app_state" where
  "showLoginError message s =
     (case login_error s of
        None \<Rightarrow> s
      | Some e \<Rightarrow>
          s\<lparr>login_error := Some (message, False),
            timeouts := timeouts s @ [(5000, HideLoginError)]\<rparr>)"

definition clearLoginForm :: "app_state \<Rightarrow> app_state" where
  "clearLoginForm s =
     s\<lparr>username_field := map_option (\<lambda>v. []) (username_field s),
       password_field := map_option (\<lambda>v. []) (password_field s),
       login_error := map_option (\<lambda>e. (fst e, True)) (login_error s)\<rparr>"

text \<open>
  The fallback of \<open>handleLogin\<close>: the entry of the table under the entered name, when
  its password is the entered one; the session is the entry with the name added.
\<close>

definition localAuth :: "string \<Rightarrow> string \<Rightarrow> user option" where
  "localAuth uname pw =
     (case map_of demo_users uname of
        None \<Rightarrow> None
      | Some u \<Rightarrow>
          if du_password u \<noteq> pw then None
          else Some \<lparr>username = uname, password = Some (du_password u), role = du_role u,
                 full_name = du_full_name u\<rparr>)"

text \<open>The end of \<open>handleLogin\<close>, once \<open>currentUser\<close> is set: from "Clear the form" on.\<close>

definition enterMainApp :: "user \<Rightarrow> app_state \<Rightarrow> app_state" where
  "enterMainApp u s =
     (let s1 = clearLoginForm s in
      if login_screen_hidden s1 \<noteq> None \<and> main_app_hidden s1 \<noteq> None then
        s1\<lparr>login_screen_hidden := Some True,
           main_app_hidden := Some False,
           user_name_el := map_option (\<lambda>t. full_name u) (user_name_el s1),
           user_role_el := map_option (\<lambda>t. role u) (user_role_el s1),
           timeouts := timeouts s1 @ [(100, InitializeMainApp)]\<rparr>
      else showLoginError ''Application error. Please refresh the page.'' s1)"

definition handleLogin :: "(api_error + login_reply) \<Rightarrow> app_state \<Rightarrow> app_state" where
  "handleLogin reply s =
     (case username_field s of
        None \<Rightarrow> showLoginError ''Login form error. Please refresh the page.'' s
      | Some uv \<Rightarrow>
     (case password_field s of
        None \<Rightarrow> showLoginError ''Login form error. Please refresh the page.'' s
      | Some pv \<Rightarrow>
          let uname = trim uv; pw = trim pv in
          if uname = [] \<or> pw = [] then
            showLoginError ''Please enter both username and password.'' s
          else
            (case apiRequest (Post ''/login'' uname pw) reply s of
               (Inr (LoginSuccess u), s1) \<Rightarrow> enterMainApp u (s1\<lparr>currentUser := Some u\<rparr>)
             | (_, s1) \<Rightarrow>
                 (case localAuth uname pw of
                    None \<Rightarrow> clearLoginForm (showLoginError ''Invalid username or password.'' s1)
                  | Some u \<Rightarrow> enterMainApp u (s1\<lparr>currentUser := Some u\<rparr>)))))"

subsection \<open>Timers, charts and navigation\<close>

definition setInterval :: "tick \<Rightarrow> app_state \<Rightarrow> nat \<times> app_state" where
  "setInterval f s =
     (next_handle s,
      s\<lparr>live_intervals := live_intervals s @ [(next_handle s, f)],
        next_handle := Suc (next_handle s)\<rparr>)"

definition clearInterval :: "nat \<Rightarrow> app_state \<Rightarrow> app_state" where
  "clearInterval h s = s\<lparr>live_intervals := filter (\<lambda>p. fst p \<noteq> h) (live_intervals s)\<rparr>"

definition destroy :: "nat \<Rightarrow> app_state \<Rightarrow> app_state" where
  "destroy c s = s\<lparr>live_charts := removeAll c (live_charts s)\<rparr>"

text \<open>
  \<open>showPage\<close>, for a page id that can stand between the quotes of the attribute
  selector, as the ids of the page and \<open>dashboard\<close> can; with an id that breaks the
  selector \<open>querySelector\<close> throws before the timeout is set.
\<close>

definition showPage :: "string \<Rightarrow> app_state \<Rightarrow> app_state" where
  "showPage pageId s =
     s\<lparr>active_pages := (if pageId \<in> set (page_ids s) then [pageId] else []),
       active_navs := (if pageId \<in> set (nav_ids s) then [pageId] else []),
       timeouts := timeouts s @ [(50, InitializePage pageId)]\<rparr>"

text \<open>
  \<open>handleLogout\<close>. A timer handle is cleared when it is truthy, that is not 0 (the
  browser hands out positive handles); every value of \<open>charts\<close> is a chart widget
  and has \<open>destroy\<close>.
\<close>

definition handleLogout :: "app_state \<Rightarrow> app_state" where
  "handleLogout s =
     (let s1 = s\<lparr>currentUser := None\<rparr>;
          s2 = fold (\<lambda>interval t. if interval \<noteq> 0 then clearInterval interval t else t)
                 (map snd (updateIntervals s1)) s1;
          s3 = s2\<lparr>updateIntervals := []\<rparr>;
          s4 = fold destroy (map snd (charts s3)) s3;
          s5 = s4\<lparr>charts := []\<rparr>;
          s6 = (if login_screen_hidden s5 \<noteq> None \<and> main_app_hidden s5 \<noteq> None
                then s5\<lparr>main_app_hidden := Some True, login_screen_hidden := Some False\<rparr>
                else s5);
          s7 = clearLoginForm s6;
          s8 = showPage ''dashboard'' s7
      in if username_field s8 \<noteq> None
         then s8\<lparr>timeouts := timeouts s8 @ [(100, FocusUsername)]\<rparr>
         else s8)"

text \<open>
  \<open>initializeMainApp\<close>, by its effect on the state (the click listeners it installs
  are not part of it).
\<close>

definition initializeMainApp :: "app_state \<Rightarrow> app_state" where
  "initializeMainApp s =
     (if isInitialized s then s else (showPage ''dashboard'' s)\<lparr>isInitialized := True\<rparr>)"

definition initializeTracking :: "app_state \<Rightarrow> app_state" where
  "initializeTracking s =
     (let s1 = (case map_of (updateIntervals s) ''tracking'' of
                  None \<Rightarrow> s
                | Some h \<Rightarrow> if h \<noteq> 0 then clearInterval h s else s);
          (h, s2) = setInterval TrackingTick s1
      in s2\<lparr>updateIntervals := assign ''tracking'' h (updateIntervals s2)\<rparr>)"

subsection \<open>Fleet management page\<close>

text \<open>
  \<open>initializeFleetManagement\<close>: \<open>fetchFleetStatus\<close> catches its own failure, so the
  \<open>catch\<close> of this function is not reached, and one card is built per drone returned.
\<close>

definition initializeFleetManagement ::
  "(api_error + drone list) \<Rightarrow> app_state \<Rightarrow> app_state" where
  "initializeFleetManagement reply s =
     (case fleet_grid s of
        None \<Rightarrow> s
      | Some g \<Rightarrow>
          (case fetchFleetStatus reply s of
             (fleetData, s1) \<Rightarrow> s1\<lparr>fleet_grid := Some (map createDroneCard fleetData)\<rparr>))"

subsection \<open>Dashboard: the local simulation\<close>








subsection \<open>Tracking page\<close>

text \<open>
  A \<open>.flight-item\<close>: the width of its progress bar in percent (\<open>None\<close> when
  \<open>style.width\<close> starts with no number), the number in its "% Complete" label and the
  minutes in its ETA label (\<open>None\<close> when the item has no such label).
\<close>

record flight_item =
  bar_width :: "real option"
  progress_text :: "int option"
  flight_eta :: "int option"

text \<open>
  The first digit of a positive number below 1, found by moving the decimal point at
  most \<open>n\<close> places (no positive double is below \<open>10 ^ - 324\<close>).
\<close>

fun leadingDigit :: "nat \<Rightarrow> real \<Rightarrow> int" where
  "leadingDigit 0 w = 0"
| "leadingDigit (Suc n) w = (if 1 \<le> w then \<lfloor>w\<rfloor> else leadingDigit n (w * 10))"

text \<open>
  \<open>parseInt(bar.style.width) || 0\<close>: \<open>parseInt\<close> reads the digits before the point,
  so it drops the fraction; without a number it gives NaN, which \<open>||\<close> turns into 0.
  A positive width below one millionth is written with an exponent, as in
  \<open>5e-8%\<close>, and \<open>parseInt\<close> reads its leading digit.
\<close>

definition currentWidth :: "flight_item \<Rightarrow> int" where
  "currentWidth bar =
     (case bar_width bar of
        None \<Rightarrow> 0
      | Some w \<Rightarrow>
          if w < 0 then \<lceil>w\<rceil>
          else if 0 < w \<and> w < 1 / 1000000 then leadingDigit 330 w
          else \<lfloor>w\<rfloor>)"

text \<open>The body of the \<open>forEach\<close> of \<open>updateFlightProgress\<close>, for one bar and its draw.\<close>

definition updateBar :: "real \<Rightarrow> flight_item \<Rightarrow> flight_item" where
  "updateBar r bar =
     (if currentWidth bar < 100 then
        let newWidth = min 100 (of_int (currentWidth bar) + r * 5) in
        bar\<lparr>bar_width := Some newWidth,
            progress_text := map_option (\<lambda>t. Math_round newWidth) (progress_text bar),
            flight_eta :=
              map_option (\<lambda>t. max 1 (Math_round ((100 - newWidth) * 0.2))) (flight_eta bar)\<rparr>
      else bar)"

fun updateFlightProgress ::
  "(nat \<Rightarrow> real) \<Rightarrow> nat \<Rightarrow> flight_item list \<Rightarrow> flight_item list" where
  "updateFlightProgress rnd i [] = []"
| "updateFlightProgress rnd i (bar # bars) =
     updateBar (rnd i) bar # updateFlightProgress rnd (Suc i) bars"

subsection \<open>Sample inputs\<close>

text \<open>The user typing into the two fields of the login form; a drone of the fleet.\<close>

definition enterCredentials :: "string \<Rightarrow> string \<Rightarrow> app_state \<Rightarrow> app_state" where
  "enterCredentials uv pv s = s\<lparr>username_field := Some uv, password_field := Some pv\<rparr>"

definition lla_001 :: drone where
  "lla_001 =
     \<lparr>drone_id = ''LLA-001'', status = ''Active'', mission = ''Medical Delivery'',
      location = ''Zone A'', battery = 87\<rparr>"

text \<open>
  A session with the tracking page opened once and the fleet status chart drawn:
  one registered timer and one chart widget.
\<close>

definition tracking_session :: app_state where
  "tracking_session =
     (initializeTracking initial_state)\<lparr>charts := [(''fleetStatus'', 1)], live_charts := [1]\<rparr>"

text \<open>A fleet of two drones in the cache.\<close>

definition two_drones :: app_state where
  "two_drones = initial_state\<lparr>drone_fleet := [lla_001, lla_001\<lparr>drone_id := ''LLA-002''\<rparr>]\<rparr>"

text \<open>
  A session opened through the fallback table, with the main application
  initialized; then a second login, as another user, in that state.
\<close>

definition logged_in_demo :: app_state where
  "logged_in_demo =
     initializeMainApp (handleLogin (Inl NetworkError)
       (enterCredentials ''demo'' ''demo123'' initial_state))"

definition relogin_admin :: app_state where
  "relogin_admin =
     handleLogin (Inl NetworkError) (enterCredentials ''admin'' ''admin123'' logged_in_demo)"

text \<open>The user object a backend reply carries.\<close>

definition backend_admin :: user where
  "backend_admin =
     \<lparr>username = ''admin'', password = None, role = ''Administrator'',
      full_name = ''System Administrator''\<rparr>"


text \<open>A flight at 45 percent, as the page is loaded.\<close>

definition flight_45 :: flight_item where
  "flight_45 = \<lparr>bar_width = Some 45, progress_text = Some 45, flight_eta = Some 11\<rparr>"

section \<open>What each function leaves alone\<close>

lemma showLoginError_frame [simp]:
  "currentUser (showLoginError m s) = currentUser s"
  "charts (showLoginError m s) = charts s"
  "updateIntervals (showLoginError m s) = updateIntervals s"
  "isInitialized (showLoginError m s) = isInitialized s"
  "drone_fleet (showLoginError m s) = drone_fleet s"
  "medical_supplies (showLoginError m s) = medical_supplies s"
  "kpi_data (showLoginError m s) = kpi_data s"
  "requests (showLoginError m s) = requests s"
  "live_intervals (showLoginError m s) = live_intervals s"
  "live_charts (showLoginError m s) = live_charts s"
  "username_field (showLoginError m s) = username_field s"
  "password_field (showLoginError m s) = password_field s"
  "login_screen_hidden (showLoginError m s) = login_screen_hidden s"
  "main_app_hidden (showLoginError m s) = main_app_hidden s"
  "login_error (showLoginError m s) = map_option (\<lambda>e. (m, False)) (login_error s)"
  by (simp_all add: showLoginError_def split: option.splits)

lemma clearLoginForm_frame [simp]:
  "currentUser (clearLoginForm s) = currentUser s"
  "charts (clearLoginForm s) = charts s"
  "updateIntervals (clearLoginForm s) = updateIntervals s"
  "isInitialized (clearLoginForm s) = isInitialized s"
  "drone_fleet (clearLoginForm s) = drone_fleet s"
  "medical_supplies (clearLoginForm s) = medical_supplies s"
  "kpi_data (clearLoginForm s) = kpi_data s"
  "requests (clearLoginForm s) = requests s"
  "live_intervals (clearLoginForm s) = live_intervals s"
  "live_charts (clearLoginForm s) = live_charts s"
  "timeouts (clearLoginForm s) = timeouts s"
  "login_screen_hidden (clearLoginForm s) = login_screen_hidden s"
  "main_app_hidden (clearLoginForm s) = main_app_hidden s"
  "username_field (clearLoginForm s) = map_option (\<lambda>v. []) (username_field s)"
  "password_field (clearLoginForm s) = map_option (\<lambda>v. []) (password_field s)"
  "login_error (clearLoginForm s) = map_option (\<lambda>e. (fst e, True)) (login_error s)"
  by (simp_all add: clearLoginForm_def)

lemma enterMainApp_frame [simp]:
  "currentUser (enterMainApp u s) = currentUser s"
  "charts (enterMainApp u s) = charts s"
  "updateIntervals (enterMainApp u s) = updateIntervals s"
  "isInitialized (enterMainApp u s) = isInitialized s"
  "drone_fleet (enterMainApp u s) = drone_fleet s"
  "medical_supplies (enterMainApp u s) = medical_supplies s"
  "kpi_data (enterMainApp u s) = kpi_data s"
  "requests (enterMainApp u s) = requests s"
  "live_intervals (enterMainApp u s) = live_intervals s"
  "live_charts (enterMainApp u s) = live_charts s"
  "username_field (enterMainApp u s) = map_option (\<lambda>v. []) (username_field s)"
  "password_field (enterMainApp u s) = map_option (\<lambda>v. []) (password_field s)"
  by (simp_all add: enterMainApp_def Let_def)

text \<open>What \<open>handleLogin\<close> decides, apart from the state: who is logged in afterwards.\<close>

lemma handleLogin_currentUser:
  "currentUser (handleLogin reply s) =
     (case username_field s of
        None \<Rightarrow> currentUser s
      | Some uv \<Rightarrow>
     (case password_field s of
        None \<Rightarrow> currentUser s
      | Some pv \<Rightarrow>
          if trim uv = [] \<or> trim pv = [] then currentUser s
          else
            (case reply of
               Inr (LoginSuccess u) \<Rightarrow> Some u
             | _ \<Rightarrow>
                 (case localAuth (trim uv) (trim pv) of
                    None \<Rightarrow> currentUser s
                  | Some u \<Rightarrow> Some u))))"
  by (simp add: handleLogin_def Let_def apiRequest_def
      split: option.splits sum.splits login_reply.splits)

lemma handleLogin_requests:
  "requests (handleLogin reply s) =
     (case username_field s of
        None \<Rightarrow> requests s
      | Some uv \<Rightarrow>
     (case password_field s of
        None \<Rightarrow> requests s
      | Some pv \<Rightarrow>
          if trim uv = [] \<or> trim pv = [] then requests s
          else requests s @ [Post ''/login'' (trim uv) (trim pv)]))"
  by (simp add: handleLogin_def Let_def apiRequest_def
      split: option.splits sum.splits login_reply.splits)

lemma handleLogin_frame:
  "charts (handleLogin reply s) = charts s"
  "updateIntervals (handleLogin reply s) = updateIntervals s"
  "isInitialized (handleLogin reply s) = isInitialized s"
  "drone_fleet (handleLogin reply s) = drone_fleet s"
  "medical_supplies (handleLogin reply s) = medical_supplies s"
  "kpi_data (handleLogin reply s) = kpi_data s"
  "live_intervals (handleLogin reply s) = live_intervals s"
  "live_charts (handleLogin reply s) = live_charts s"
  by (simp_all add: handleLogin_def Let_def apiRequest_def
      split: option.splits sum.splits login_reply.splits)

lemma filter_cleared:
  "filter (\<lambda>p. fst p = 0 \<or> fst p \<notin> set hs) (filter (\<lambda>p. fst p \<noteq> h) xs) =
     filter (\<lambda>p. fst p = 0 \<or> fst p \<notin> set (h # hs)) xs" if "h \<noteq> (0::nat)"
  using that by (induction xs) auto

lemma filter_destroyed:
  "filter (\<lambda>x. x \<notin> set cs) (removeAll c xs) = filter (\<lambda>x. x \<notin> set (c # cs)) xs"
  by (induction xs) auto

lemma fold_clearInterval:
  "fold (\<lambda>interval t. if interval \<noteq> 0 then clearInterval interval t else t) hs s =
     s\<lparr>live_intervals := filter (\<lambda>p. fst p = 0 \<or> fst p \<notin> set hs) (live_intervals s)\<rparr>"
proof (induction hs arbitrary: s)
  case Nil
  then show ?case by simp
next
  case (Cons h hs)
  let ?f = "\<lambda>interval t. if interval \<noteq> 0 then clearInterval interval t else t"
  have step: "fold ?f (h # hs) s = fold ?f hs (?f h s)"
    by simp
  show ?case
  proof (cases "h = 0")
    case True
    have "filter (\<lambda>p. fst p = 0 \<or> fst p \<notin> set hs) (live_intervals s) =
        filter (\<lambda>p. fst p = 0 \<or> fst p \<notin> set (h # hs)) (live_intervals s)"
      using True by (intro filter_cong) auto
    with True show ?thesis
      unfolding step by (simp only: Cons.IH if_False simp_thms)
  next
    case False
    have "fold ?f hs (?f h s) = fold ?f hs (clearInterval h s)"
      using False by simp
    also have "\<dots> = (clearInterval h s)\<lparr>live_intervals :=
        filter (\<lambda>p. fst p = 0 \<or> fst p \<notin> set hs) (live_intervals (clearInterval h s))\<rparr>"
      by (rule Cons.IH)
    also have "\<dots> = s\<lparr>live_intervals :=
        filter (\<lambda>p. fst p = 0 \<or> fst p \<notin> set (h # hs)) (live_intervals s)\<rparr>"
      using filter_cleared [OF False, of hs "live_intervals s"]
      by (simp add: clearInterval_def)
    finally show ?thesis
      unfolding step .
  qed
qed

lemma fold_destroy:
  "fold destroy cs s = s\<lparr>live_charts := filter (\<lambda>c. c \<notin> set cs) (live_charts s)\<rparr>"
proof (induction cs arbitrary: s)
  case Nil
  then show ?case by simp
next
  case (Cons c cs)
  have "fold destroy (c # cs) s = fold destroy cs (destroy c s)"
    by simp
  also have "\<dots> = (destroy c s)\<lparr>live_charts :=
      filter (\<lambda>x. x \<notin> set cs) (live_charts (destroy c s))\<rparr>"
    by (rule Cons.IH)
  also have "\<dots> = s\<lparr>live_charts := filter (\<lambda>x. x \<notin> set (c # cs)) (live_charts s)\<rparr>"
    using filter_destroyed [of cs c "live_charts s"] by (simp add: destroy_def)
  finally show ?case .
qed

lemma handleLogout_globals:
  "currentUser (handleLogout s) = None"
  "updateIntervals (handleLogout s) = []"
  "charts (handleLogout s) = []"
  "isInitialized (handleLogout s) = isInitialized s"
  unfolding handleLogout_def fold_clearInterval fold_destroy
  by (simp_all add: Let_def showPage_def)

lemma handleLogout_cache:
  "drone_fleet (handleLogout s) = drone_fleet s"
  "medical_supplies (handleLogout s) = medical_supplies s"
  "kpi_data (handleLogout s) = kpi_data s"
  unfolding handleLogout_def fold_clearInterval fold_destroy
  by (simp_all add: Let_def showPage_def)

lemma handleLogout_live:
  "live_intervals (handleLogout s) =
     filter (\<lambda>p. fst p = 0 \<or> fst p \<notin> set (map snd (updateIntervals s))) (live_intervals s)"
  "live_charts (handleLogout s) =
     filter (\<lambda>c. c \<notin> set (map snd (charts s))) (live_charts s)"
  unfolding handleLogout_def fold_clearInterval fold_destroy
  by (simp_all add: Let_def showPage_def)

lemma enterCredentials_fields [simp]:
  "username_field (enterCredentials uv pv s) = Some uv"
  "password_field (enterCredentials uv pv s) = Some pv"
  "currentUser (enterCredentials uv pv s) = currentUser s"
  "login_error (enterCredentials uv pv s) = login_error s"
  "requests (enterCredentials uv pv s) = requests s"
  "charts (enterCredentials uv pv s) = charts s"
  "updateIntervals (enterCredentials uv pv s) = updateIntervals s"
  "isInitialized (enterCredentials uv pv s) = isInitialized s"
  "drone_fleet (enterCredentials uv pv s) = drone_fleet s"
  "medical_supplies (enterCredentials uv pv s) = medical_supplies s"
  "kpi_data (enterCredentials uv pv s) = kpi_data s"
  "live_intervals (enterCredentials uv pv s) = live_intervals s"
  "live_charts (enterCredentials uv pv s) = live_charts s"
  "login_screen_hidden (enterCredentials uv pv s) = login_screen_hidden s"
  "main_app_hidden (enterCredentials uv pv s) = main_app_hidden s"
  by (simp_all add: enterCredentials_def)

lemma showPage_frame [simp]:
  "currentUser (showPage p s) = currentUser s"
  "charts (showPage p s) = charts s"
  "updateIntervals (showPage p s) = updateIntervals s"
  "isInitialized (showPage p s) = isInitialized s"
  "drone_fleet (showPage p s) = drone_fleet s"
  "medical_supplies (showPage p s) = medical_supplies s"
  "kpi_data (showPage p s) = kpi_data s"
  "requests (showPage p s) = requests s"
  "live_intervals (showPage p s) = live_intervals s"
  "live_charts (showPage p s) = live_charts s"
  "username_field (showPage p s) = username_field s"
  "password_field (showPage p s) = password_field s"
  "login_error (showPage p s) = login_error s"
  by (simp_all add: showPage_def)

lemma initializeMainApp_frame [simp]:
  "currentUser (initializeMainApp s) = currentUser s"
  "charts (initializeMainApp s) = charts s"
  "updateIntervals (initializeMainApp s) = updateIntervals s"
  "isInitialized (initializeMainApp s) = True"
  "drone_fleet (initializeMainApp s) = drone_fleet s"
  "medical_supplies (initializeMainApp s) = medical_supplies s"
  "kpi_data (initializeMainApp s) = kpi_data s"
  "requests (initializeMainApp s) = requests s"
  "live_intervals (initializeMainApp s) = live_intervals s"
  "live_charts (initializeMainApp s) = live_charts s"
  "username_field (initializeMainApp s) = username_field s"
  "password_field (initializeMainApp s) = password_field s"
  "login_error (initializeMainApp s) = login_error s"
  by (simp_all add: initializeMainApp_def)

lemma tracking_session_fields:
  "updateIntervals tracking_session = [(''tracking'', 2)]"
  "live_intervals tracking_session = [(1, TimeLabelTick), (2, TrackingTick)]"
  "charts tracking_session = [(''fleetStatus'', 1)]"
  "live_charts tracking_session = [1]"
  by (simp_all add: tracking_session_def initializeTracking_def setInterval_def
      initial_state_def)

lemma two_drones_fields:
  "fleet_grid two_drones = Some []"
  "length (drone_fleet two_drones) = 2"
  by (simp_all add: two_drones_def initial_state_def)

section \<open>Trimming and the credential table\<close>

lemma dropWhile_all: "list_all P xs \<Longrightarrow> dropWhile P (xs @ ys) = dropWhile P ys"
  by (induction xs) auto

lemma dropWhile_Nil_iff: "dropWhile P xs = [] \<longleftrightarrow> list_all P xs"
  by (induction xs) auto

lemma dropWhile_rest: "list_all P (dropWhile P xs) \<longleftrightarrow> dropWhile P xs = []"
proof
  assume all: "list_all P (dropWhile P xs)"
  show "dropWhile P xs = []"
  proof (rule ccontr)
    assume ne: "dropWhile P xs \<noteq> []"
    then have "\<not> P (hd (dropWhile P xs))"
      by (rule hd_dropWhile)
    moreover from ne all have "P (hd (dropWhile P xs))"
      by (cases "dropWhile P xs") simp_all
    ultimately show False
      by simp
  qed
next
  assume "dropWhile P xs = []"
  then show "list_all P (dropWhile P xs)"
    by (simp only: list.pred_inject)
qed

lemma trim_Nil_iff: "trim s = [] \<longleftrightarrow> list_all isWhiteSpace s"
proof -
  have "trim s = [] \<longleftrightarrow> list_all isWhiteSpace (rev (dropWhile isWhiteSpace s))"
    by (simp only: trim_def rev_is_Nil_conv dropWhile_Nil_iff)
  also have "\<dots> \<longleftrightarrow> list_all isWhiteSpace (dropWhile isWhiteSpace s)"
    by (simp add: list_all_iff)
  also have "\<dots> \<longleftrightarrow> dropWhile isWhiteSpace s = []"
    by (rule dropWhile_rest)
  finally show ?thesis
    by (simp only: dropWhile_Nil_iff)
qed

lemma trim_pad:
  assumes "list_all isWhiteSpace l" "list_all isWhiteSpace r"
  shows "trim (l @ m @ r) = trim m"
proof (cases "list_all isWhiteSpace m")
  case True
  with assms have "list_all isWhiteSpace (l @ m @ r)"
    by simp
  with True show ?thesis
    by (simp only: trim_Nil_iff [symmetric])
next
  case False
  then have "dropWhile isWhiteSpace (m @ r) = dropWhile isWhiteSpace m @ r"
    by (auto simp add: list_all_iff)
  then have "rev (dropWhile isWhiteSpace (l @ m @ r)) = rev r @ rev (dropWhile isWhiteSpace m)"
    using assms(1) by (simp add: dropWhile_all)
  moreover have "list_all isWhiteSpace (rev r)"
    using assms(2) by (simp add: list_all_iff)
  ultimately show ?thesis
    by (simp add: trim_def dropWhile_all)
qed



lemma trim_table:
  "trim ''admin'' = ''admin''" "trim ''admin123'' = ''admin123''"
  "trim ''fleet_mgr'' = ''fleet_mgr''" "trim ''fleet123'' = ''fleet123''"
  "trim ''medical'' = ''medical''" "trim ''medical123'' = ''medical123''"
  "trim ''demo'' = ''demo''" "trim ''demo123'' = ''demo123''"
  by (simp_all add: trim_def isWhiteSpace_def)

lemma localAuth_entry:
  assumes "(uname, e) \<in> set demo_users"
  shows "localAuth uname (du_password e) =
     Some \<lparr>username = uname, password = Some (du_password e), role = du_role e,
       full_name = du_full_name e\<rparr>
     \<and> trim uname = uname \<and> trim (du_password e) = du_password e
     \<and> uname \<noteq> [] \<and> du_password e \<noteq> []"
proof -
  have "(uname, e) = demo_users ! 0 \<or> (uname, e) = demo_users ! 1
      \<or> (uname, e) = demo_users ! 2 \<or> (uname, e) = demo_users ! 3"
    using assms by (simp add: demo_users_def)
  then show ?thesis
  proof (elim disjE)
    assume "(uname, e) = demo_users ! 0"
    then have "uname = ''admin''" "du_password e = ''admin123''"
      "du_role e = ''Administrator''" "du_full_name e = ''System Administrator''"
      by (simp_all add: demo_users_def)
    then show ?thesis
      by (simp add: localAuth_def demo_users_def trim_table)
  next
    assume "(uname, e) = demo_users ! 1"
    then have "uname = ''fleet_mgr''" "du_password e = ''fleet123''"
      "du_role e = ''Fleet Manager''" "du_full_name e = ''Fleet Operations Manager''"
      by (simp_all add: demo_users_def)
    then show ?thesis
      by (simp add: localAuth_def demo_users_def trim_table)
  next
    assume "(uname, e) = demo_users ! 2"
    then have "uname = ''medical''" "du_password e = ''medical123''"
      "du_role e = ''Medical Coordinator''" "du_full_name e = ''Medical Supply Coordinator''"
      by (simp_all add: demo_users_def)
    then show ?thesis
      by (simp add: localAuth_def demo_users_def trim_table)
  next
    assume "(uname, e) = demo_users ! 3"
    then have "uname = ''demo''" "du_password e = ''demo123''"
      "du_role e = ''Observer''" "du_full_name e = ''Demo User''"
      by (simp_all add: demo_users_def)
    then show ?thesis
      by (simp add: localAuth_def demo_users_def trim_table)
  qed
qed


lemma logged_in_demo_fields:
  "currentUser logged_in_demo =
     Some \<lparr>username = ''demo'', password = Some ''demo123'', role = ''Observer'',
       full_name = ''Demo User''\<rparr>"
  "isInitialized logged_in_demo"
  "kpi_data logged_in_demo = initial_kpi"
  by (simp_all add: logged_in_demo_def handleLogin_currentUser handleLogin_frame trim_table
      localAuth_def demo_users_def initial_state_def)

section \<open>Clamping, rounding and the two loops\<close>















lemma updateFlightProgress_length: "length (updateFlightProgress rnd i bars) = length bars"
  by (induction bars arbitrary: i) simp_all

lemma updateFlightProgress_nth:
  "k < length bars \<Longrightarrow>
     updateFlightProgress rnd i bars ! k = updateBar (rnd (i + k)) (bars ! k)"
proof (induction bars arbitrary: i k)
  case Nil
  then show ?case by simp
next
  case (Cons bar bars)
  then show ?case
    by (cases k) simp_all
qed

lemma leadingDigit_less_10: "w < 10 \<Longrightarrow> leadingDigit n w < 10"
  by (induction n arbitrary: w) (simp_all add: floor_less_iff)

lemma currentWidth_below_100:
  assumes "bar_width bar = Some w"
  shows "(currentWidth bar < 100) = (w < 100)"
proof (cases "0 < w \<and> w < 1 / 1000000")
  case True
  then have "leadingDigit 330 w < 10"
    by (intro leadingDigit_less_10) simp
  with True assms show ?thesis
    by (simp add: currentWidth_def)
next
  case False
  with assms show ?thesis
    by (auto simp add: currentWidth_def floor_less_iff ceiling_less_iff)
qed

lemma updateBar_cap:
  assumes "bar_width bar = Some w" "w \<le> 100"
  shows "\<exists>w'. bar_width (updateBar r bar) = Some w' \<and> w' \<le> 100"
  using assms by (simp add: updateBar_def Let_def)

lemma updateBar_at_100:
  assumes "bar_width bar = Some 100"
  shows "updateBar r bar = bar"
  using assms by (simp add: updateBar_def currentWidth_def)

section \<open>Fleet cards: the battery class\<close>

text \<open>
  C2. The claim puts a battery of exactly 30 in the class "medium". The card's
  expression is \<open>battery > 60 ? 'high' : battery > 30 ? 'medium' : 'low'\<close>, so a drone
  at 30 gets "low".
\<close>

theorem C2_battery_30_is_low:
  "card_battery_class (createDroneCard
     \<lparr>drone_id = ''LLA-001'', status = ''Active'', mission = ''Medical Delivery'',
      location = ''Zone A'', battery = 30\<rparr>) = ''low''
   \<and> \<not> (card_battery_class (createDroneCard
     \<lparr>drone_id = ''LLA-001'', status = ''Active'', mission = ''Medical Delivery'',
      location = ''Zone A'', battery = 30\<rparr>) = ''medium'')"
  by (simp add: createDroneCard_def batteryClass_def)

text \<open>
  C2, as the code has it: the class is "high" exactly when the battery is above 60,
  "medium" exactly when it is above 30 and at most 60, and "low" exactly when it is
  at most 30; so 61 is "high", 60 and 31 are "medium", 30 and 29 are "low".
\<close>

theorem C2_battery_class:
  "(card_battery_class (createDroneCard d) = ''high'') = (battery d > 60)
   \<and> (card_battery_class (createDroneCard d) = ''medium'') = (30 < battery d \<and> battery d \<le> 60)
   \<and> (card_battery_class (createDroneCard d) = ''low'') = (battery d \<le> 30)
   \<and> batteryClass 61 = ''high'' \<and> batteryClass 60 = ''medium'' \<and> batteryClass 31 = ''medium''
   \<and> batteryClass 30 = ''low'' \<and> batteryClass 29 = ''low''"
  by (auto simp add: createDroneCard_def batteryClass_def)

section \<open>Logout\<close>

text \<open>
  C1. The claim has the cached fleet, supplies and KPI snapshot cleared by logout.
  \<open>handleLogout\<close> never touches \<open>appData\<close>: after a login through the fallback
  table, a fleet fetch that returns one drone and a logout, the cache still holds
  that drone and the KPI snapshot. The timer of the "min ago" labels, which no
  registry holds, is still running as well.
\<close>

theorem C1_cache_survives_logout:
  "currentUser (handleLogin (Inl NetworkError)
      (enterCredentials ''demo'' ''demo123'' initial_state)) \<noteq> None
   \<and> drone_fleet (handleLogout (snd (fetchFleetStatus (Inr [lla_001])
        (handleLogin (Inl NetworkError)
          (enterCredentials ''demo'' ''demo123'' initial_state))))) = [lla_001]
   \<and> kpi_data (handleLogout (snd (fetchFleetStatus (Inr [lla_001])
        (handleLogin (Inl NetworkError)
          (enterCredentials ''demo'' ''demo123'' initial_state))))) = initial_kpi
   \<and> live_intervals (handleLogout (snd (fetchFleetStatus (Inr [lla_001])
        (handleLogin (Inl NetworkError)
          (enterCredentials ''demo'' ''demo123'' initial_state))))) = [(1, TimeLabelTick)]"
  by (simp add: handleLogin_currentUser handleLogin_frame trim_table localAuth_def demo_users_def
      handleLogout_cache handleLogout_live fetchFleetStatus_def apiRequest_def initial_state_def)

text \<open>
  C1, as the code has it: when \<open>handleLogout\<close> returns, the session is cleared,
  every timer registered in \<open>updateIntervals\<close> is cancelled and every chart in
  \<open>charts\<close> is destroyed, both registries are empty, and the cached fleet, supplies
  and KPI snapshot are what they were before.
\<close>

theorem C1_logout:
  "currentUser (handleLogout s) = None
   \<and> updateIntervals (handleLogout s) = []
   \<and> charts (handleLogout s) = []
   \<and> (\<forall>h \<in> set (map snd (updateIntervals s)).
        h \<noteq> 0 \<longrightarrow> h \<notin> set (map fst (live_intervals (handleLogout s))))
   \<and> (\<forall>c \<in> set (map snd (charts s)). c \<notin> set (live_charts (handleLogout s)))
   \<and> drone_fleet (handleLogout s) = drone_fleet s
   \<and> medical_supplies (handleLogout s) = medical_supplies s
   \<and> kpi_data (handleLogout s) = kpi_data s"
proof -
  have "h \<notin> set (map fst (live_intervals (handleLogout s)))"
    if "h \<in> set (map snd (updateIntervals s))" "h \<noteq> 0" for h
    using that unfolding handleLogout_live by force
  moreover have "c \<notin> set (live_charts (handleLogout s))"
    if "c \<in> set (map snd (charts s))" for c
    using that unfolding handleLogout_live by auto
  ultimately show ?thesis
    by (simp only: handleLogout_globals handleLogout_cache) blast
qed

text \<open>
  C1 at the session with the tracking timer (handle 2) and the fleet status chart
  (widget 1): both are gone after the logout.
\<close>

theorem C1_logout_witness:
  "(2::nat) \<in> set (map snd (updateIntervals tracking_session)) \<and> (2::nat) \<noteq> 0
   \<and> 2 \<in> set (map fst (live_intervals tracking_session))
   \<and> 2 \<notin> set (map fst (live_intervals (handleLogout tracking_session)))
   \<and> 1 \<in> set (map snd (charts tracking_session))
   \<and> 1 \<in> set (live_charts tracking_session)
   \<and> 1 \<notin> set (live_charts (handleLogout tracking_session))
   \<and> currentUser (handleLogout tracking_session) = None
   \<and> updateIntervals (handleLogout tracking_session) = []
   \<and> charts (handleLogout tracking_session) = []"
  using C1_logout [of tracking_session] by (simp add: tracking_session_fields)


section \<open>Fetching with a cache\<close>

text \<open>
  C3. When the request fails, each of \<open>fetchKPIs\<close>, \<open>fetchFleetStatus\<close> and
  \<open>fetchMedicalSupplies\<close> returns the cached snapshot and the state is the one before
  with only the request recorded; when it succeeds, the data is returned and replaces
  the cache. On a failed fleet fetch the fleet page shows as many cards as the cache
  has drones.
\<close>

theorem C3_fetch_failure:
  "fetchKPIs (Inl e) s = (kpi_data s, s\<lparr>requests := requests s @ [Get ''/dashboard/kpis'']\<rparr>)
   \<and> fetchFleetStatus (Inl e) s =
       (drone_fleet s, s\<lparr>requests := requests s @ [Get ''/fleet/status'']\<rparr>)
   \<and> fetchMedicalSupplies (Inl e) s =
       (medical_supplies s, s\<lparr>requests := requests s @ [Get ''/medical/inventory'']\<rparr>)
   \<and> fetchKPIs (Inr k) s =
       (k, s\<lparr>requests := requests s @ [Get ''/dashboard/kpis''], kpi_data := k\<rparr>)
   \<and> fetchFleetStatus (Inr ds) s =
       (ds, s\<lparr>requests := requests s @ [Get ''/fleet/status''], drone_fleet := ds\<rparr>)
   \<and> fetchMedicalSupplies (Inr ms) s =
       (ms, s\<lparr>requests := requests s @ [Get ''/medical/inventory''], medical_supplies := ms\<rparr>)
   \<and> (fleet_grid s \<noteq> None \<longrightarrow>
        map_option length (fleet_grid (initializeFleetManagement (Inl e) s)) =
          Some (length (drone_fleet s))
        \<and> drone_fleet (initializeFleetManagement (Inl e) s) = drone_fleet s)"
  by (auto simp add: fetchKPIs_def fetchFleetStatus_def fetchMedicalSupplies_def apiRequest_def
      initializeFleetManagement_def)

text \<open>C3 at a page with a fleet grid and two cached drones: two cards.\<close>

theorem C3_fetch_failure_witness:
  "fleet_grid two_drones \<noteq> None
   \<and> map_option length (fleet_grid (initializeFleetManagement (Inl NetworkError) two_drones)) =
       Some 2
   \<and> drone_fleet (initializeFleetManagement (Inl NetworkError) two_drones) =
       drone_fleet two_drones"
  using C3_fetch_failure [of NetworkError two_drones]
  by (simp only: two_drones_fields) simp

section \<open>Login\<close>

text \<open>
  C4. The claim has an error message shown when the fallback finds no entry. At
  \<open>admin\<close> with a wrong password and the backend down, \<open>handleLogin\<close> calls
  \<open>showLoginError\<close> and then \<open>clearLoginForm\<close>, which puts the class \<open>hidden\<close> back
  on the error box: the text is set, but the box is hidden when the function returns.
  The session stays empty and both fields are cleared.
\<close>

theorem C4_invalid_login_error_hidden:
  "login_error (handleLogin (Inl NetworkError)
      (enterCredentials ''admin'' ''wrong'' initial_state)) =
     Some (''Invalid username or password.'', True)
   \<and> currentUser (handleLogin (Inl NetworkError)
      (enterCredentials ''admin'' ''wrong'' initial_state)) = None
   \<and> username_field (handleLogin (Inl NetworkError)
      (enterCredentials ''admin'' ''wrong'' initial_state)) = Some []
   \<and> password_field (handleLogin (Inl NetworkError)
      (enterCredentials ''admin'' ''wrong'' initial_state)) = Some []"
  by (simp add: handleLogin_def apiRequest_def localAuth_def demo_users_def trim_def
      isWhiteSpace_def initial_state_def Let_def)

text \<open>
  C5. The claim has a login in the LoggedIn state change nothing. With \<open>demo\<close>
  logged in and the application initialized, a login as \<open>admin\<close> replaces the session.
\<close>

theorem C5_relogin_replaces_session:
  "currentUser logged_in_demo =
     Some \<lparr>username = ''demo'', password = Some ''demo123'', role = ''Observer'',
       full_name = ''Demo User''\<rparr>
   \<and> isInitialized logged_in_demo
   \<and> currentUser relogin_admin =
     Some \<lparr>username = ''admin'', password = Some ''admin123'', role = ''Administrator'',
       full_name = ''System Administrator''\<rparr>
   \<and> currentUser relogin_admin \<noteq> currentUser logged_in_demo"
  by (simp add: relogin_admin_def logged_in_demo_fields handleLogin_currentUser trim_table
      localAuth_def demo_users_def)

text \<open>
  C5, as the code has it: a login leaves the timers, the charts and the cached data
  as they are, whatever the state; once \<open>isInitialized\<close> is set, the
  \<open>initializeMainApp\<close> it schedules changes nothing. The session is replaced by the
  user of the reply when the backend accepts the login, and by the entry of the
  table when the backend path fails and the table has the trimmed name with the
  trimmed password; it is left as it is when a field is missing or empty and when
  both paths fail.
\<close>

theorem C5_relogin:
  "updateIntervals (handleLogin reply s) = updateIntervals s
   \<and> live_intervals (handleLogin reply s) = live_intervals s
   \<and> charts (handleLogin reply s) = charts s
   \<and> live_charts (handleLogin reply s) = live_charts s
   \<and> drone_fleet (handleLogin reply s) = drone_fleet s
   \<and> medical_supplies (handleLogin reply s) = medical_supplies s
   \<and> kpi_data (handleLogin reply s) = kpi_data s
   \<and> isInitialized (handleLogin reply s) = isInitialized s
   \<and> (isInitialized s \<longrightarrow> initializeMainApp (handleLogin reply s) = handleLogin reply s)
   \<and> currentUser (handleLogin reply s) =
       (case username_field s of
          None \<Rightarrow> currentUser s
        | Some uv \<Rightarrow>
       (case password_field s of
          None \<Rightarrow> currentUser s
        | Some pv \<Rightarrow>
            if trim uv = [] \<or> trim pv = [] then currentUser s
            else
              (case reply of
                 Inr (LoginSuccess u) \<Rightarrow> Some u
               | _ \<Rightarrow>
                   (case localAuth (trim uv) (trim pv) of
                      None \<Rightarrow> currentUser s
                    | Some u \<Rightarrow> Some u))))"
proof -
  have "isInitialized s \<longrightarrow>
      initializeMainApp (handleLogin reply s) = handleLogin reply s"
    by (simp add: initializeMainApp_def handleLogin_frame)
  then show ?thesis
    by (simp only: handleLogin_frame handleLogin_currentUser [symmetric] simp_thms)
qed

text \<open>
  C5 at the second login, as \<open>admin\<close>, of the session of \<open>demo\<close>, the backend
  down: the deferred initialization does nothing, the cache and the timers are as
  before, and the session is the table's entry for \<open>admin\<close>.
\<close>

theorem C5_relogin_witness:
  "isInitialized logged_in_demo
   \<and> initializeMainApp relogin_admin = relogin_admin
   \<and> kpi_data relogin_admin = initial_kpi
   \<and> updateIntervals relogin_admin = updateIntervals logged_in_demo
   \<and> currentUser relogin_admin =
       Some \<lparr>username = ''admin'', password = Some ''admin123'', role = ''Administrator'',
         full_name = ''System Administrator''\<rparr>"
proof -
  note c5 = C5_relogin [of "Inl NetworkError"
      "enterCredentials ''admin'' ''admin123'' logged_in_demo"]
  from c5 have "currentUser relogin_admin =
       Some \<lparr>username = ''admin'', password = Some ''admin123'', role = ''Administrator'',
         full_name = ''System Administrator''\<rparr>"
    by (simp add: relogin_admin_def trim_table localAuth_def demo_users_def)
  with c5 show ?thesis
    by (simp add: relogin_admin_def logged_in_demo_fields)
qed

text \<open>
  C9. When a field of the form is missing, or its trimmed value is empty, the login
  ends with \<open>showLoginError\<close> alone: the result does not depend on the reply of the
  backend, no request is made, the session is unchanged, and the error box, when the
  page has one, shows the message.
\<close>

theorem C9_missing_field:
  assumes "(case username_field s of None \<Rightarrow> True | Some uv \<Rightarrow> trim uv = [])
     \<or> (case password_field s of None \<Rightarrow> True | Some pv \<Rightarrow> trim pv = [])"
  shows "handleLogin reply s =
       showLoginError
         (if username_field s = None \<or> password_field s = None
          then ''Login form error. Please refresh the page.''
          else ''Please enter both username and password.'') s
     \<and> handleLogin reply s = handleLogin reply' s
     \<and> requests (handleLogin reply s) = requests s
     \<and> currentUser (handleLogin reply s) = currentUser s
     \<and> (login_error s \<noteq> None \<longrightarrow>
          login_error (handleLogin reply s) =
            Some (if username_field s = None \<or> password_field s = None
                  then ''Login form error. Please refresh the page.''
                  else ''Please enter both username and password.'', False))"
proof -
  have eq: "handleLogin r s =
       showLoginError
         (if username_field s = None \<or> password_field s = None
          then ''Login form error. Please refresh the page.''
          else ''Please enter both username and password.'') s" for r
    using assms by (auto simp add: handleLogin_def Let_def split: option.splits)
  show ?thesis
    unfolding eq by auto
qed

text \<open>
  C9 at the freshly loaded page, both fields empty, with a backend that would accept
  the login.
\<close>

theorem C9_missing_field_witness:
  "(case username_field initial_state of None \<Rightarrow> True | Some uv \<Rightarrow> trim uv = [])
   \<and> login_error initial_state \<noteq> None
   \<and> requests (handleLogin (Inr (LoginSuccess backend_admin)) initial_state) = []
   \<and> currentUser (handleLogin (Inr (LoginSuccess backend_admin)) initial_state) = None
   \<and> login_error (handleLogin (Inr (LoginSuccess backend_admin)) initial_state) =
        Some (''Please enter both username and password.'', False)"
  using C9_missing_field [of initial_state "Inr (LoginSuccess backend_admin)"]
  by (simp add: initial_state_def trim_def)

text \<open>
  C10. The entered values are trimmed first: input of white space only is rejected as
  missing, with no request and no change of session; otherwise the request carries the
  trimmed values; and when the backend path fails, an entry of the table padded with
  white space on either side of the name and of the password logs in as that entry.
\<close>

theorem C10_trimmed_input:
  assumes "username_field s = Some uv" and "password_field s = Some pv"
  shows "(list_all isWhiteSpace uv \<or> list_all isWhiteSpace pv \<longrightarrow>
        handleLogin reply s = showLoginError ''Please enter both username and password.'' s
        \<and> requests (handleLogin reply s) = requests s
        \<and> currentUser (handleLogin reply s) = currentUser s)
     \<and> (\<not> list_all isWhiteSpace uv \<and> \<not> list_all isWhiteSpace pv \<longrightarrow>
        requests (handleLogin reply s) = requests s @ [Post ''/login'' (trim uv) (trim pv)])
     \<and> ((uname, e) \<in> set demo_users
        \<and> list_all isWhiteSpace l1 \<and> list_all isWhiteSpace r1 \<and> uv = l1 @ uname @ r1
        \<and> list_all isWhiteSpace l2 \<and> list_all isWhiteSpace r2 \<and> pv = l2 @ du_password e @ r2
        \<and> (\<forall>u. reply \<noteq> Inr (LoginSuccess u)) \<longrightarrow>
        requests (handleLogin reply s) = requests s @ [Post ''/login'' uname (du_password e)]
        \<and> currentUser (handleLogin reply s) =
            Some \<lparr>username = uname, password = Some (du_password e), role = du_role e,
              full_name = du_full_name e\<rparr>)"
proof (intro conjI impI)
  assume "list_all isWhiteSpace uv \<or> list_all isWhiteSpace pv"
  then have blank: "trim uv = [] \<or> trim pv = []"
    by (simp only: trim_Nil_iff)
  with assms show "handleLogin reply s =
      showLoginError ''Please enter both username and password.'' s"
    by (auto simp add: handleLogin_def Let_def)
  from blank assms show "requests (handleLogin reply s) = requests s"
    by (auto simp add: handleLogin_requests)
  from blank assms show "currentUser (handleLogin reply s) = currentUser s"
    by (auto simp add: handleLogin_currentUser)
next
  assume "\<not> list_all isWhiteSpace uv \<and> \<not> list_all isWhiteSpace pv"
  then have "trim uv \<noteq> []" "trim pv \<noteq> []"
    by (simp_all only: trim_Nil_iff simp_thms)
  with assms show "requests (handleLogin reply s) =
      requests s @ [Post ''/login'' (trim uv) (trim pv)]"
    by (simp add: handleLogin_requests)
next
  assume h: "(uname, e) \<in> set demo_users
        \<and> list_all isWhiteSpace l1 \<and> list_all isWhiteSpace r1 \<and> uv = l1 @ uname @ r1
        \<and> list_all isWhiteSpace l2 \<and> list_all isWhiteSpace r2 \<and> pv = l2 @ du_password e @ r2
        \<and> (\<forall>u. reply \<noteq> Inr (LoginSuccess u))"
  then have entry: "(uname, e) \<in> set demo_users"
    by simp
  note tab = localAuth_entry [OF entry]
  from h have "trim uv = trim uname" "trim pv = trim (du_password e)"
    by (simp_all add: trim_pad)
  with tab have tr: "trim uv = uname" "trim pv = du_password e"
    by simp_all
  from tab have ne: "uname \<noteq> []" "du_password e \<noteq> []"
    by simp_all
  from assms tr ne show "requests (handleLogin reply s) =
      requests s @ [Post ''/login'' uname (du_password e)]"
    by (simp add: handleLogin_requests)
  from h have "\<forall>u. reply \<noteq> Inr (LoginSuccess u)"
    by simp
  with assms tr ne tab show "currentUser (handleLogin reply s) =
      Some \<lparr>username = uname, password = Some (du_password e), role = du_role e,
        full_name = du_full_name e\<rparr>"
    by (auto simp add: handleLogin_currentUser split: sum.splits login_reply.splits)
qed

text \<open>
  C10 at a username of two spaces, and at \<open>demo\<close> and \<open>demo123\<close> entered with spaces,
  a tab and a line feed around them.
\<close>

theorem C10_trimmed_input_witness:
  "list_all isWhiteSpace ''  '' 
   \<and> handleLogin (Inl NetworkError) (enterCredentials ''  '' ''demo123'' initial_state) =
       showLoginError ''Please enter both username and password.''
         (enterCredentials ''  '' ''demo123'' initial_state)
   \<and> (''demo'', \<lparr>du_password = ''demo123'', du_role = ''Observer'',
         du_full_name = ''Demo User''\<rparr>) \<in> set demo_users
   \<and> requests (handleLogin (Inr LoginFailure)
        (enterCredentials '' demo  '' [CHR 0x09, CHR ''d'', CHR ''e'', CHR ''m'', CHR ''o'',
           CHR ''1'', CHR ''2'', CHR ''3'', CHR 0x0A] initial_state)) =
       [Post ''/login'' ''demo'' ''demo123'']
   \<and> currentUser (handleLogin (Inr LoginFailure)
        (enterCredentials '' demo  '' [CHR 0x09, CHR ''d'', CHR ''e'', CHR ''m'', CHR ''o'',
           CHR ''1'', CHR ''2'', CHR ''3'', CHR 0x0A] initial_state)) =
       Some \<lparr>username = ''demo'', password = Some ''demo123'', role = ''Observer'',
         full_name = ''Demo User''\<rparr>"
proof -
  let ?e = "\<lparr>du_password = ''demo123'', du_role = ''Observer'', du_full_name = ''Demo User''\<rparr>"
  let ?pv = "[CHR 0x09, CHR ''d'', CHR ''e'', CHR ''m'', CHR ''o'', CHR ''1'', CHR ''2'',
    CHR ''3'', CHR 0x0A]"
  have a: "list_all isWhiteSpace ''  ''"
    by (simp add: isWhiteSpace_def)
  have b: "(''demo'', ?e) \<in> set demo_users"
    by (simp add: demo_users_def)
  have c: "list_all isWhiteSpace '' ''" "list_all isWhiteSpace [CHR 0x09]"
    "list_all isWhiteSpace [CHR 0x0A]"
    by (simp_all add: isWhiteSpace_def)
  have d: "\<forall>u. Inr LoginFailure \<noteq> (Inr (LoginSuccess u) :: api_error + login_reply)"
    by simp
  have r0: "requests initial_state = []"
    by (simp add: initial_state_def)
  from C10_trimmed_input [of "enterCredentials ''  '' ''demo123'' initial_state" "''  ''"
      "''demo123''" "Inl NetworkError"] a
  have first: "handleLogin (Inl NetworkError) (enterCredentials ''  '' ''demo123'' initial_state) =
       showLoginError ''Please enter both username and password.''
         (enterCredentials ''  '' ''demo123'' initial_state)"
    by simp
  from C10_trimmed_input [of "enterCredentials '' demo  '' ?pv initial_state" "'' demo  ''"
      ?pv "Inr LoginFailure" "''demo''" ?e "'' ''" "''  ''" "[CHR 0x09]" "[CHR 0x0A]"] a b c d
  have second: "requests (handleLogin (Inr LoginFailure)
        (enterCredentials '' demo  '' ?pv initial_state)) = [Post ''/login'' ''demo'' ''demo123'']
     \<and> currentUser (handleLogin (Inr LoginFailure)
        (enterCredentials '' demo  '' ?pv initial_state)) =
       Some \<lparr>username = ''demo'', password = Some ''demo123'', role = ''Observer'',
         full_name = ''Demo User''\<rparr>"
    by (simp add: r0)
  from a b first second show ?thesis
    by simp
qed


section \<open>The local dashboard simulation\<close>



section \<open>Flight tracking\<close>

text \<open>
  C7. In a tracking tick, a flight whose progress, as \<open>updateFlightProgress\<close> reads
  it, is below 100 and which has an ETA label gets a new progress, the progress read
  plus five times its draw, capped at 100, and the ETA
  \<open>max(1, round((100 - progress) * 0.2))\<close> of that new progress.
\<close>

theorem C7_eta:
  assumes "i < length bars" and "currentWidth (bars ! i) < 100"
    and "flight_eta (bars ! i) \<noteq> None"
  shows "\<exists>progress.
       bar_width (updateFlightProgress rnd 0 bars ! i) = Some progress
       \<and> progress = min 100 (of_int (currentWidth (bars ! i)) + rnd i * 5)
       \<and> flight_eta (updateFlightProgress rnd 0 bars ! i) =
           Some (max 1 (Math_round ((100 - progress) * 0.2)))"
proof -
  from assms(3) obtain t where "flight_eta (bars ! i) = Some t"
    by auto
  with assms(1,2) show ?thesis
    by (simp add: updateFlightProgress_nth updateBar_def Let_def)
qed

text \<open>C7 at a flight at 45 percent with the draw 0.58: progress 47.9, ETA 10 minutes.\<close>

theorem C7_eta_witness:
  "(0::nat) < length [flight_45] \<and> currentWidth ([flight_45] ! 0) < 100
   \<and> flight_eta ([flight_45] ! 0) \<noteq> None
   \<and> bar_width (updateFlightProgress (\<lambda>i. 29 / 50) 0 [flight_45] ! 0) = Some (479 / 10)
   \<and> flight_eta (updateFlightProgress (\<lambda>i. 29 / 50) 0 [flight_45] ! 0) = Some 10
   \<and> max 1 (Math_round ((100 - 479 / 10) * 0.2)) = 10"
proof -
  have h: "(0::nat) < length [flight_45]" "currentWidth ([flight_45] ! 0) < 100"
    "flight_eta ([flight_45] ! 0) \<noteq> None"
    by (simp_all add: flight_45_def currentWidth_def)
  have w: "min 100 (of_int (currentWidth ([flight_45] ! 0)) + (29 / 50) * 5) = (479 / 10 :: real)"
    by (simp add: flight_45_def currentWidth_def)
  have e: "max 1 (Math_round ((100 - 479 / 10) * 0.2)) = 10"
    by (simp add: Math_round_def)
  from C7_eta [OF h, of "\<lambda>i. 29 / 50"] obtain progress where
    p: "bar_width (updateFlightProgress (\<lambda>i. 29 / 50) 0 [flight_45] ! 0) = Some progress"
      "progress = min 100 (of_int (currentWidth ([flight_45] ! 0)) + (29 / 50) * 5)"
      "flight_eta (updateFlightProgress (\<lambda>i. 29 / 50) 0 [flight_45] ! 0) =
         Some (max 1 (Math_round ((100 - progress) * 0.2)))"
    by blast
  from p(2) w have "progress = 479 / 10"
    by (simp only:)
  with p(1,3) e
  have "bar_width (updateFlightProgress (\<lambda>i. 29 / 50) 0 [flight_45] ! 0) = Some (479 / 10)
     \<and> flight_eta (updateFlightProgress (\<lambda>i. 29 / 50) 0 [flight_45] ! 0) = Some 10"
    by (simp only: simp_thms)
  with h e show ?thesis
    by (simp only: simp_thms)
qed

text \<open>
  C8. The claim has the progress of a flight never decrease. The tick reads the
  width with \<open>parseInt\<close>, which drops the fraction the tick before wrote: from 45
  the draw 0.58 gives 47.9 (label 48), and then the draw 0.01 gives 47.05 (label 47).
\<close>

theorem C8_progress_can_decrease:
  "map bar_width (updateFlightProgress (\<lambda>i. 29 / 50) 0 [flight_45]) = [Some (479 / 10)]
   \<and> map progress_text (updateFlightProgress (\<lambda>i. 29 / 50) 0 [flight_45]) = [Some 48]
   \<and> map bar_width (updateFlightProgress (\<lambda>i. 1 / 100) 0
        (updateFlightProgress (\<lambda>i. 29 / 50) 0 [flight_45])) = [Some (941 / 20)]
   \<and> map progress_text (updateFlightProgress (\<lambda>i. 1 / 100) 0
        (updateFlightProgress (\<lambda>i. 29 / 50) 0 [flight_45])) = [Some 47]
   \<and> (941 / 20 :: real) < 479 / 10"
  by (simp add: flight_45_def updateBar_def currentWidth_def Math_round_def Let_def)

end
